theory Spec2Isabelle
  imports Complex_Main
begin

section \<open>JavaScript numbers\<close>

text \<open>
  The scorer computes with JavaScript numbers: IEEE 754 binary64 values, every operation
  rounding its exact result to the nearest value, a tie going to the even significand.
  A finite number is modelled by the real number it denotes; the operations return
  values of binary64 only, whatever reals they are given. The two zeros are one value
  here: no operation of the scorer tells them apart (the scorer divides by 180, 2 and 40
  only, and the comparisons take the zeros as equal); a division by zero takes the zero
  as positive.
\<close>

datatype number = Finite real | PositiveInfinity | NegativeInfinity | NaN

text \<open>Rounding to an integer, a tie going to the even one.\<close>

definition round_half_even :: "real \<Rightarrow> int" where
  "round_half_even y =
     (let f = \<lfloor>y\<rfloor>
      in if y - of_int f < 1 / 2 then f
         else if 1 / 2 < y - of_int f then f + 1
         else if even f then f else f + 1)"

text \<open>The exponent of the binade of a positive real, not below the smallest normal
  exponent; the spacing of the values of binary64 in that binade (53 bits of
  significand); and a positive real rounded to that grid.\<close>

definition binade :: "real \<Rightarrow> int" where
  "binade x = max \<lfloor>log 2 x\<rfloor> (- 1022)"

definition quantum :: "real \<Rightarrow> real" where
  "quantum x = 2 powi (binade x - 52)"

definition round_magnitude :: "real \<Rightarrow> real" where
  "round_magnitude x = of_int (round_half_even (x / quantum x)) * quantum x"

text \<open>The number a real result is rounded to: sign and rounded magnitude, an infinity
  when the rounded magnitude is \<open>2^1024\<close> or more.\<close>

definition round_double :: "real \<Rightarrow> number" where
  "round_double x =
     (if x = 0 then Finite 0
      else let r = round_magnitude \<bar>x\<bar>
           in if 2 powi 1024 \<le> r
              then (if 0 < x then PositiveInfinity else NegativeInfinity)
              else Finite (sgn x * r))"

text \<open>The operators \<open>-a\<close>, \<open>a + b\<close>, \<open>a - b\<close>, \<open>a * b\<close>, \<open>a / b\<close>, \<open>a < b\<close>,
  \<open>a === b\<close> and \<open>a <= b\<close> on numbers.\<close>

fun neg_num :: "number \<Rightarrow> number" where
  "neg_num (Finite x) = Finite (- x)"
| "neg_num PositiveInfinity = NegativeInfinity"
| "neg_num NegativeInfinity = PositiveInfinity"
| "neg_num NaN = NaN"

fun sign :: "number \<Rightarrow> real" where
  "sign (Finite x) = sgn x"
| "sign PositiveInfinity = 1"
| "sign NegativeInfinity = - 1"
| "sign NaN = 0"

definition infinity :: "real \<Rightarrow> number" where
  "infinity s = (if s = 0 then NaN else if 0 < s then PositiveInfinity else NegativeInfinity)"

fun add_num :: "number \<Rightarrow> number \<Rightarrow> number" where
  "add_num (Finite x) (Finite y) = round_double (x + y)"
| "add_num NaN b = NaN"
| "add_num a NaN = NaN"
| "add_num (Finite x) b = b"
| "add_num a (Finite y) = a"
| "add_num a b = (if a = b then a else NaN)"

definition sub_num :: "number \<Rightarrow> number \<Rightarrow> number" where
  "sub_num a b = add_num a (neg_num b)"

fun mul_num :: "number \<Rightarrow> number \<Rightarrow> number" where
  "mul_num (Finite x) (Finite y) = round_double (x * y)"
| "mul_num NaN b = NaN"
| "mul_num a NaN = NaN"
| "mul_num a b = infinity (sign a * sign b)"

fun div_num :: "number \<Rightarrow> number \<Rightarrow> number" where
  "div_num (Finite x) (Finite y) = (if y = 0 then infinity (sgn x) else round_double (x / y))"
| "div_num NaN b = NaN"
| "div_num a NaN = NaN"
| "div_num (Finite x) b = Finite 0"
| "div_num a (Finite y) = infinity (sign a * (if y < 0 then - 1 else 1))"
| "div_num a b = NaN"

fun lt_num :: "number \<Rightarrow> number \<Rightarrow> bool" where
  "lt_num (Finite x) (Finite y) = (x < y)"
| "lt_num NaN b = False"
| "lt_num a NaN = False"
| "lt_num a NegativeInfinity = False"
| "lt_num PositiveInfinity b = False"
| "lt_num a b = True"

fun eq_num :: "number \<Rightarrow> number \<Rightarrow> bool" where
  "eq_num NaN b = False"
| "eq_num a NaN = False"
| "eq_num a b = (a = b)"

definition le_num :: "number \<Rightarrow> number \<Rightarrow> bool" where
  "le_num a b = (lt_num a b \<or> eq_num a b)"

subsection \<open>Library functions of JavaScript\<close>

text \<open>\<open>Math.PI\<close>, the number nearest to pi.\<close>

definition Math_PI :: number where
  "Math_PI = Finite (884279719003555 / 2 ^ 48)"

text \<open>\<open>Math.round(x)\<close>: the nearest integer, a tie going up (towards plus infinity); the
  result is exact.\<close>

fun Math_round :: "number \<Rightarrow> number" where
  "Math_round (Finite x) = Finite (of_int \<lfloor>x + 1 / 2\<rfloor>)"
| "Math_round a = a"

text \<open>\<open>Math.sin\<close>, \<open>Math.cos\<close>, \<open>Math.sqrt\<close> and \<open>Math.atan2\<close>: the language fixes their
  results at NaN, the zeros and the infinities, and leaves every other result to the
  implementation (an approximation of the mathematical value). The approximations are a
  parameter of the model; the fixed cases are written out, as far as the scorer can
  reach them.\<close>

record MathImplementation =
  sin_impl :: "number \<Rightarrow> number"
  cos_impl :: "number \<Rightarrow> number"
  sqrt_impl :: "number \<Rightarrow> number"
  atan2_impl :: "number \<Rightarrow> number \<Rightarrow> number"

definition Math_sin :: "MathImplementation \<Rightarrow> number \<Rightarrow> number" where
  "Math_sin impl x =
     (case x of
        Finite r \<Rightarrow> if r = 0 then Finite 0 else sin_impl impl x
      | _ \<Rightarrow> NaN)"

definition Math_cos :: "MathImplementation \<Rightarrow> number \<Rightarrow> number" where
  "Math_cos impl x =
     (case x of
        Finite r \<Rightarrow> if r = 0 then Finite 1 else cos_impl impl x
      | _ \<Rightarrow> NaN)"

definition Math_sqrt :: "MathImplementation \<Rightarrow> number \<Rightarrow> number" where
  "Math_sqrt impl x =
     (case x of
        Finite r \<Rightarrow> if r < 0 then NaN else if r = 0 then Finite 0 else sqrt_impl impl x
      | PositiveInfinity \<Rightarrow> PositiveInfinity
      | _ \<Rightarrow> NaN)"

definition Math_atan2 :: "MathImplementation \<Rightarrow> number \<Rightarrow> number \<Rightarrow> number" where
  "Math_atan2 impl y x =
     (if y = NaN \<or> x = NaN then NaN
      else if y = Finite 0 \<and> lt_num (Finite 0) x then Finite 0
      else atan2_impl impl y x)"

text \<open>\<open>Array.prototype.sort(comparefn)\<close>: a stable sort; \<open>a\<close> stays before \<open>b\<close> unless
  \<open>comparefn(a, b) > 0\<close>, and a result NaN of the comparison function counts as 0. With a
  consistent comparison function every stable sort returns the same array; the model is
  the insertion sort.\<close>

fun sort_insert :: "('a \<Rightarrow> 'a \<Rightarrow> number) \<Rightarrow> 'a \<Rightarrow> 'a list \<Rightarrow> 'a list" where
  "sort_insert comparefn x [] = [x]"
| "sort_insert comparefn x (y # ys) =
     (if lt_num (Finite 0) (comparefn x y) then y # sort_insert comparefn x ys
      else x # y # ys)"

fun Array_sort :: "('a \<Rightarrow> 'a \<Rightarrow> number) \<Rightarrow> 'a list \<Rightarrow> 'a list" where
  "Array_sort comparefn [] = []"
| "Array_sort comparefn (x # xs) = sort_insert comparefn x (Array_sort comparefn xs)"

section \<open>Hospital recommendation scorer (app/(tabs)/explore.tsx)\<close>

subsection \<open>Data\<close>

text \<open>\<open>interface UserLocation\<close>, \<open>interface Hospital\<close> and
  \<open>interface HospitalWithScore extends Hospital\<close>. The field \<open>id\<close> of the source is
  \<open>hospital_id\<close> here (\<open>id\<close> is the identity function of HOL).\<close>

record UserLocation =
  latitude :: number
  longitude :: number

record Hospital =
  hospital_id :: int
  hospital_name :: string
  address :: string
  phone_number :: string
  latitude :: number
  longitude :: number
  current_wait_time :: number

record HospitalWithScore = Hospital +
  score :: number
  travel_time :: number

subsection \<open>The scorer\<close>

text \<open>\<open>calculateDistance\<close>: the haversine distance in kilometres, operation by
  operation in the order JavaScript evaluates the source.\<close>

definition calculateDistance ::
    "MathImplementation \<Rightarrow> number \<Rightarrow> number \<Rightarrow> number \<Rightarrow> number \<Rightarrow> number" where
  "calculateDistance impl lat1 lon1 lat2 lon2 =
     (let R = Finite 6371;
          dLat = div_num (mul_num (sub_num lat2 lat1) Math_PI) (Finite 180);
          dLon = div_num (mul_num (sub_num lon2 lon1) Math_PI) (Finite 180);
          a = add_num
                (mul_num (Math_sin impl (div_num dLat (Finite 2)))
                         (Math_sin impl (div_num dLat (Finite 2))))
                (mul_num
                  (mul_num
                    (mul_num (Math_cos impl (div_num (mul_num lat1 Math_PI) (Finite 180)))
                             (Math_cos impl (div_num (mul_num lat2 Math_PI) (Finite 180))))
                    (Math_sin impl (div_num dLon (Finite 2))))
                  (Math_sin impl (div_num dLon (Finite 2))));
          c = mul_num (Finite 2)
                (Math_atan2 impl (Math_sqrt impl a) (Math_sqrt impl (sub_num (Finite 1) a)))
      in mul_num R c)"

text \<open>\<open>calculateTravelTime\<close>: minutes at 40 km/h.\<close>

definition calculateTravelTime :: "number \<Rightarrow> number" where
  "calculateTravelTime distanceKm =
     (let averageSpeedKmh = Finite 40
      in Math_round (mul_num (div_num distanceKm averageSpeedKmh) (Finite 60)))"

text \<open>The callback of \<open>hospitalList.map\<close>: the hospital with its score and travel time
  (\<open>{...hospital, score, travel_time}\<close>).\<close>

definition scoreHospital ::
    "MathImplementation \<Rightarrow> UserLocation \<Rightarrow> Hospital \<Rightarrow> HospitalWithScore" where
  "scoreHospital impl userLoc hospital =
     (let distance = calculateDistance impl
            (UserLocation.latitude userLoc) (UserLocation.longitude userLoc)
            (Hospital.latitude hospital) (Hospital.longitude hospital);
          travel_time = calculateTravelTime distance;
          score = add_num travel_time (current_wait_time hospital)
      in Hospital.extend hospital (HospitalWithScore.fields score travel_time))"

text \<open>The comparison function of the sort, \<open>(a, b) => a.score - b.score\<close>.\<close>

definition compareScore :: "HospitalWithScore \<Rightarrow> HospitalWithScore \<Rightarrow> number" where
  "compareScore a b = sub_num (score a) (score b)"

text \<open>The local array \<open>hospitalsWithScores\<close> of \<open>findRecommendedHospital\<close>, after the
  sort.\<close>

definition hospitalsWithScores ::
    "MathImplementation \<Rightarrow> Hospital list \<Rightarrow> UserLocation \<Rightarrow> HospitalWithScore list" where
  "hospitalsWithScores impl hospitalList userLoc =
     Array_sort compareScore (map (scoreHospital impl userLoc) hospitalList)"

text \<open>\<open>findRecommendedHospital\<close>. The result \<open>null\<close> is \<open>None\<close>; the function has no
  \<open>throw\<close>. The guard \<open>!userLoc\<close> is the case \<open>None\<close> of the location. Element 0 of an empty
  array is \<open>undefined\<close> in JavaScript, \<open>None\<close> here; the guard keeps the array non-empty.\<close>

definition findRecommendedHospital ::
    "MathImplementation \<Rightarrow> Hospital list \<Rightarrow> UserLocation option \<Rightarrow> HospitalWithScore option"
    where
  "findRecommendedHospital impl hospitalList userLoc =
     (case userLoc of
        None \<Rightarrow> None
      | Some u \<Rightarrow>
          if length hospitalList = 0 then None
          else (case hospitalsWithScores impl hospitalList u of
                  [] \<Rightarrow> None
                | best # _ \<Rightarrow> Some best))"

subsection \<open>Example inputs\<close>

text \<open>The values of the approximated functions at the arguments of the example below:
  each is the number nearest to the mathematical sine, cosine or square root (what the
  usual implementations return there). Elsewhere the table is not read.\<close>

definition example_Math :: MathImplementation where
  "example_Math =
     \<lparr>sin_impl = (\<lambda>x.
        if x = Finite (- (6439128407179665 / 2 ^ 62)) then Finite (- (1609781578736119 / 2 ^ 60))
        else if x = Finite (884279719003555 / 2 ^ 49) then Finite 1
        else NaN),
      cos_impl = (\<lambda>x.
        if x = Finite (6439128407179665 / 2 ^ 62) \<or> x = Finite (- (6439128407179665 / 2 ^ 62))
        then Finite (4503595237371535 / 2 ^ 52)
        else NaN),
      sqrt_impl = (\<lambda>x. if x = Finite 1 then Finite 1 else NaN),
      atan2_impl = (\<lambda>y x. NaN)\<rparr>"

text \<open>A user at latitude 0.08, longitude 0 (the literals of JavaScript, rounded to
  numbers); a hospital at the opposite point of the globe, waiting time 5; a hospital at
  the user's position, waiting time 7.\<close>

definition example_user :: UserLocation where
  "example_user = \<lparr>UserLocation.latitude = round_double 0.08, longitude = Finite 0\<rparr>"

definition example_antipodal_hospital :: Hospital where
  "example_antipodal_hospital =
     \<lparr>hospital_id = 1, hospital_name = ''H1'', address = ''a'', phone_number = ''p'',
      latitude = round_double (- 0.08), longitude = Finite 180, current_wait_time = Finite 5\<rparr>"

definition example_near_hospital :: Hospital where
  "example_near_hospital =
     \<lparr>hospital_id = 2, hospital_name = ''H2'', address = ''a'', phone_number = ''p'',
      latitude = round_double 0.08, longitude = Finite 0, current_wait_time = Finite 7\<rparr>"

section \<open>Request client (the module apiClient, in app/auth/login.tsx)\<close>

text \<open>
  The client is an axios instance with a request interceptor and a response interceptor;
  it reads and writes two items of \<open>SecureStore\<close> and sends HTTP requests. The store and
  the requests are effects: the model passes a state (\<open>world\<close>) that holds the store and
  the trace of the effects so far, and takes the remote side as a parameter
  (\<open>network\<close>).
\<close>

subsection \<open>Data\<close>

text \<open>A JSON object with string properties (a request body, \<open>response.data\<close>): an
  association list. Reading a property that is missing gives \<open>undefined\<close>, here
  \<open>None\<close>.\<close>

type_synonym json = "(string \<times> string) list"

definition get_property :: "json \<Rightarrow> string \<Rightarrow> string option" where
  "get_property obj k = map_of obj k"

text \<open>The truth value JavaScript gives a string, \<open>null\<close> or \<open>undefined\<close> in a
  condition (\<open>if (accessToken)\<close>, \<open>!refreshToken\<close>): false for \<open>null\<close>, \<open>undefined\<close>
  and the empty string.\<close>

definition truthy :: "string option \<Rightarrow> bool" where
  "truthy v = (case v of None \<Rightarrow> False | Some s \<Rightarrow> s \<noteq> [])"

text \<open>The request configuration of axios, with the fields the module reads or writes:
  \<open>method\<close> (here \<open>http_method\<close>), \<open>url\<close>, \<open>headers.Authorization\<close>, \<open>data\<close> and the
  flag \<open>_retry\<close> (here \<open>retry\<close>) that the response interceptor adds.\<close>

record config =
  http_method :: string
  url :: string
  Authorization :: "string option"
  data :: json
  retry :: bool

record response =
  status :: nat
  data :: json

text \<open>The two senders of the module: the instance \<open>apiClient\<close>, which has the
  interceptors, and the bare \<open>axios\<close>, which has none (no line of the repository gives
  \<open>axios\<close> an interceptor or a default header).\<close>

datatype client = ApiClient | Axios

text \<open>The effects, in the order they happen: a request sent by a client, and a write
  \<open>SecureStore.setItemAsync(key, value)\<close>. Each one ends at an \<open>await\<close> of the source,
  where the event loop may run other tasks.\<close>

datatype event = Request client config | SetItem string string

text \<open>What the remote side does with a request: it answers, or no response arrives
  (network error, or the timeout of 10 seconds). The answer may depend on everything that
  happened before.\<close>

datatype outcome = Answer response | NoAnswer

type_synonym network = "event list \<Rightarrow> client \<Rightarrow> config \<Rightarrow> outcome"

text \<open>What a promise of the module is rejected with: the error of axios, which holds the
  configuration of the request (\<open>error.config\<close>) and the response if there is one
  (\<open>error.response\<close>); or the error \<open>SecureStore.setItemAsync\<close> throws for a value that is
  not a string.\<close>

datatype error = AxiosError config "response option" | InvalidValue

record world =
  store :: "string \<rightharpoonup> string"
  trace :: "event list"

subsection \<open>Library functions\<close>

text \<open>axios settles a request: a response with a status from 200 to 299 resolves the
  promise, any other response and no response reject it (the default
  \<open>validateStatus\<close>).\<close>

definition settle :: "config \<Rightarrow> outcome \<Rightarrow> error + response" where
  "settle cfg out =
     (case out of
        NoAnswer \<Rightarrow> Inl (AxiosError cfg None)
      | Answer r \<Rightarrow>
          if 200 \<le> status r \<and> status r < 300 then Inr r
          else Inl (AxiosError cfg (Some r)))"

text \<open>Sending one request, without any interceptor: the request joins the trace.\<close>

definition dispatch ::
    "network \<Rightarrow> client \<Rightarrow> config \<Rightarrow> world \<Rightarrow> (error + response) \<times> world" where
  "dispatch net c cfg w =
     (settle cfg (net (trace w) c cfg), w\<lparr>trace := trace w @ [Request c cfg]\<rparr>)"

text \<open>\<open>SecureStore.setItemAsync(key, value)\<close>: it throws for a value that is not a string
  (\<open>undefined\<close>, a property the response does not have), and writes the item otherwise.\<close>

definition setItemAsync :: "string \<Rightarrow> string option \<Rightarrow> world \<Rightarrow> error + world" where
  "setItemAsync key v w =
     (case v of
        None \<Rightarrow> Inl InvalidValue
      | Some s \<Rightarrow>
          Inr (w\<lparr>store := (store w)(key \<mapsto> s), trace := trace w @ [SetItem key s]\<rparr>))"

subsection \<open>The module\<close>

definition API_BASE_URL :: string where
  "API_BASE_URL = ''https://8b285d984713.ngrok-free.app/api/''"

text \<open>The request interceptor: \<open>SecureStore.getItemAsync("accessToken")\<close>, and the header
  \<open>Authorization\<close> if there is a token. (\<open>the\<close> is applied to a truthy value only, which
  is a string.)\<close>

definition request_interceptor :: "config \<Rightarrow> world \<Rightarrow> config" where
  "request_interceptor cfg w =
     (let accessToken = store w ''accessToken''
      in if truthy accessToken
         then cfg\<lparr>Authorization := Some (''Bearer '' @ the accessToken)\<rparr>
         else cfg)"

text \<open>The request of \<open>axios.post(refreshUrl, {refresh: refreshToken})\<close>.\<close>

definition refresh_request :: "string \<Rightarrow> config" where
  "refresh_request refreshToken =
     \<lparr>http_method = ''post'', url = API_BASE_URL @ ''token/refresh/'', Authorization = None,
      data = [(''refresh'', refreshToken)], retry = False\<rparr>"

text \<open>\<open>apiClient(config)\<close>: the request interceptor, the request, and the response
  interceptor. A response that resolves is returned. The error handler is the source's,
  branch by branch:
  \<^item> status 401 and \<open>_retry\<close> not set: \<open>_retry\<close> is set on the configuration (the object
    \<open>error.config\<close>, so the error holds the flag too); without a truthy refresh token the
    promise is rejected with the error; otherwise the bare \<open>axios\<close> posts the refresh
    request; if that is rejected, or a write to the store throws, the promise is rejected
    with that error (the \<open>catch\<close>); else both tokens are written, the header is set and
    \<open>apiClient(originalRequest)\<close> is called again;
  \<^item> any other error is rejected as it is.
  The recursion ends because the second call has \<open>_retry\<close> set.\<close>

function apiClient :: "network \<Rightarrow> config \<Rightarrow> world \<Rightarrow> (error + response) \<times> world" where
  "apiClient net cfg w =
     (let sent = request_interceptor cfg w in
      case dispatch net ApiClient sent w of
        (Inr resp, w1) \<Rightarrow> (Inr resp, w1)
      | (Inl err, w1) \<Rightarrow>
          (case err of
             AxiosError _ (Some r) \<Rightarrow>
               if status r = 401 \<and> \<not> retry sent then
                 (let originalRequest = sent\<lparr>retry := True\<rparr>;
                      refreshToken = store w1 ''refreshToken''
                  in if \<not> truthy refreshToken
                     then (Inl (AxiosError originalRequest (Some r)), w1)
                     else
                       (case dispatch net Axios (refresh_request (the refreshToken)) w1 of
                          (Inl refreshError, w2) \<Rightarrow> (Inl refreshError, w2)
                        | (Inr resp, w2) \<Rightarrow>
                            (let newAccessToken = get_property (response.data resp) ''access'';
                                 newRefreshToken = get_property (response.data resp) ''refresh''
                             in case setItemAsync ''accessToken'' newAccessToken w2 of
                                  Inl refreshError \<Rightarrow> (Inl refreshError, w2)
                                | Inr w3 \<Rightarrow>
                                    (case setItemAsync ''refreshToken'' newRefreshToken w3 of
                                       Inl refreshError \<Rightarrow> (Inl refreshError, w3)
                                     | Inr w4 \<Rightarrow>
                                         apiClient net
                                           (originalRequest\<lparr>Authorization :=
                                              Some (''Bearer '' @ the newAccessToken)\<rparr>) w4))))
               else (Inl err, w1)
           | _ \<Rightarrow> (Inl err, w1)))"
  by pat_completeness auto
termination
  apply (relation "measure (\<lambda>(net, cfg, w). if retry cfg then 0 else 1)")
   apply simp
  apply (auto simp: request_interceptor_def Let_def split: if_splits)
  done

declare apiClient.simps [simp del]

subsection \<open>Reading a trace\<close>

text \<open>A request of client \<open>c\<close> with method \<open>m\<close> to the url \<open>u\<close>; a request of client
  \<open>c\<close>.\<close>

fun is_call :: "client \<Rightarrow> string \<Rightarrow> string \<Rightarrow> event \<Rightarrow> bool" where
  "is_call c m u (Request c' cfg) = (c' = c \<and> http_method cfg = m \<and> url cfg = u)"
| "is_call c m u (SetItem k v) = False"

fun sent_by :: "client \<Rightarrow> event \<Rightarrow> bool" where
  "sent_by c (Request c' cfg) = (c' = c)"
| "sent_by c (SetItem k v) = False"

text \<open>The states of the store along a trace: before the first event, and after each
  event. Another task that runs between two events reads one of them.\<close>

fun apply_event :: "event \<Rightarrow> (string \<rightharpoonup> string) \<Rightarrow> (string \<rightharpoonup> string)" where
  "apply_event (SetItem k v) s = s(k \<mapsto> v)"
| "apply_event (Request c cfg) s = s"

fun stores_seen :: "(string \<rightharpoonup> string) \<Rightarrow> event list \<Rightarrow> (string \<rightharpoonup> string) list" where
  "stores_seen s [] = [s]"
| "stores_seen s (e # es) = s # stores_seen (apply_event e s) es"

definition token_pair :: "(string \<rightharpoonup> string) \<Rightarrow> string option \<times> string option" where
  "token_pair s = (s ''accessToken'', s ''refreshToken'')"

subsection \<open>Example inputs\<close>

text \<open>A request as a screen makes it (\<open>apiClient.get("/profile/")\<close>), a store that holds
  the pair \<open>A0\<close>, \<open>R0\<close>, and three remote sides: one accepts the access token \<open>A1\<close>
  only and refreshes to the pair \<open>A1\<close>, \<open>R1\<close>; one refreshes but rejects every other
  request; one rejects everything.\<close>

definition example_request :: config where
  "example_request =
     \<lparr>http_method = ''get'', url = ''/profile/'', Authorization = None, data = [],
      retry = False\<rparr>"

definition example_world :: world where
  "example_world =
     \<lparr>store = [''accessToken'' \<mapsto> ''A0'', ''refreshToken'' \<mapsto> ''R0''], trace = []\<rparr>"

definition example_server :: network where
  "example_server tr c cfg =
     (if c = Axios
      then Answer \<lparr>status = 200, data = [(''access'', ''A1''), (''refresh'', ''R1'')]\<rparr>
      else if Authorization cfg = Some ''Bearer A1''
      then Answer \<lparr>status = 200, data = [(''username'', ''sam'')]\<rparr>
      else Answer \<lparr>status = 401, data = []\<rparr>)"

definition example_rejecting_server :: network where
  "example_rejecting_server tr c cfg =
     (if c = Axios
      then Answer \<lparr>status = 200, data = [(''access'', ''A1''), (''refresh'', ''R1'')]\<rparr>
      else Answer \<lparr>status = 401, data = []\<rparr>)"

definition example_closed_server :: network where
  "example_closed_server tr c cfg = Answer \<lparr>status = 401, data = []\<rparr>"

section \<open>Properties of the numbers\<close>

subsection \<open>Rounding is monotone\<close>


lemma round_half_even_of_int [simp]: "round_half_even (of_int n) = n"
  unfolding round_half_even_def Let_def by simp

lemma round_half_even_mono:
  assumes "y1 \<le> y2" shows "round_half_even y1 \<le> round_half_even y2"
proof (cases "\<lfloor>y1\<rfloor> = \<lfloor>y2\<rfloor>")
  case True
  then show ?thesis
    using assms unfolding round_half_even_def Let_def by (auto; linarith)
next
  case False
  then have "\<lfloor>y1\<rfloor> < \<lfloor>y2\<rfloor>" using assms floor_mono [of y1 y2] by linarith
  moreover have "round_half_even y1 \<le> \<lfloor>y1\<rfloor> + 1"
    unfolding round_half_even_def Let_def by auto
  moreover have "\<lfloor>y2\<rfloor> \<le> round_half_even y2"
    unfolding round_half_even_def Let_def by auto
  ultimately show ?thesis by linarith
qed

lemma round_half_even_le: "y \<le> of_int n \<Longrightarrow> round_half_even y \<le> n"
  using round_half_even_mono [of y "of_int n"] by simp


lemma quantum_pos [simp]: "0 < quantum x"
  by (simp add: quantum_def)


lemma below_next_binade: assumes "0 < x" shows "x < 2 powi (binade x + 1)"
proof -
  have "x < 2 powr (of_int (\<lfloor>log 2 x\<rfloor> + 1))"
    using assms floor_log_eq_powr_iff [of x 2 "\<lfloor>log 2 x\<rfloor>"] by simp
  also have "\<dots> = 2 powi (\<lfloor>log 2 x\<rfloor> + 1)"
    by (rule powr_real_of_int') simp_all
  also have "\<dots> \<le> 2 powi (binade x + 1)"
    unfolding binade_def by (intro power_int_increasing) simp_all
  finally show ?thesis .
qed


lemma round_magnitude_le_next: assumes "0 < x" shows "round_magnitude x \<le> 2 powi (binade x + 1)"
proof -
  have "x / quantum x < 2 powi (binade x + 1) / quantum x"
    using below_next_binade [OF assms] by (intro divide_strict_right_mono) simp_all
  also have "2 powi (binade x + 1) / quantum x = 2 powi 53"
    by (simp add: quantum_def power_int_diff [symmetric])
  finally have "x / quantum x \<le> of_int (2 ^ 53)" by simp
  then have "round_half_even (x / quantum x) \<le> 2 ^ 53" by (rule round_half_even_le)
  then have "real_of_int (round_half_even (x / quantum x)) \<le> of_int (2 ^ 53)"
    by (simp only: of_int_le_iff)
  then have "of_int (round_half_even (x / quantum x)) * quantum x \<le> of_int (2 ^ 53) * quantum x"
    by (intro mult_right_mono) (simp_all add: less_imp_le)
  also have "of_int (2 ^ 53) * quantum x = 2 powi (binade x + 1)"
    by (simp add: quantum_def power_int_diff power_int_add)
  finally show ?thesis by (simp add: round_magnitude_def)
qed




lemma round_double_not_NaN [simp]: "round_double x \<noteq> NaN"
  by (simp add: round_double_def Let_def)

lemma le_num_simps [simp]:
  "le_num (Finite x) (Finite y) = (x \<le> y)"
  "le_num a PositiveInfinity = (a \<noteq> NaN)"
  "le_num NegativeInfinity b = (b \<noteq> NaN)"
  "le_num PositiveInfinity b = (b = PositiveInfinity)"
  "le_num a NegativeInfinity = (a = NegativeInfinity)"
  "le_num NaN b = False"
  "le_num a NaN = False"
  by (cases a; cases b; auto simp: le_num_def)+







subsection \<open>Rounding a given real\<close>

lemma binade_eq:
  assumes "0 < x" "2 powi e \<le> x" "x < 2 powi (e + 1)" "- 1022 \<le> e"
  shows "binade x = e"
proof -
  have "2 powr (of_int e) = (2::real) powi e" by (rule powr_real_of_int') simp_all
  moreover have "2 powr (of_int (e + 1)) = (2::real) powi (e + 1)"
    by (rule powr_real_of_int') simp_all
  ultimately have "\<lfloor>log 2 x\<rfloor> = e"
    using assms floor_log_eq_powr_iff [of x 2 e] by simp
  with assms show ?thesis by (simp add: binade_def)
qed

lemma round_double_eval:
  assumes "0 < x" "2 powi e \<le> x" "x < 2 powi (e + 1)" "- 1022 \<le> e" "e \<le> 1022"
  shows "round_double x
     = Finite (of_int (round_half_even (x / 2 powi (e - 52))) * 2 powi (e - 52))"
proof -
  have b: "binade x = e" using assms by (intro binade_eq)
  have "round_magnitude x \<le> 2 powi (e + 1)"
    using round_magnitude_le_next [OF assms(1)] by (simp add: b)
  also have "\<dots> < (2::real) powi 1024"
    using assms(5) by (intro power_int_strict_increasing) simp_all
  finally have "\<not> 2 powi 1024 \<le> round_magnitude x" by simp
  then show ?thesis
    using assms(1) by (simp add: round_double_def round_magnitude_def quantum_def b)
qed

lemma round_double_minus: "round_double (- x) = neg_num (round_double x)"
  by (simp add: round_double_def Let_def)

lemma round_double_evalI:
  assumes "0 < x" "2 powi e \<le> x" "x < 2 powi (e + 1)" "- 1022 \<le> e" "e \<le> 1022"
    and "of_int (round_half_even (x / 2 powi (e - 52))) * 2 powi (e - 52) = v"
  shows "round_double x = Finite v"
  using round_double_eval [OF assms(1-5)] assms(6) by simp

lemma round_double_evalI_neg:
  assumes "0 < x" "2 powi e \<le> x" "x < 2 powi (e + 1)" "- 1022 \<le> e" "e \<le> 1022"
    and "of_int (round_half_even (x / 2 powi (e - 52))) * 2 powi (e - 52) = v"
  shows "round_double (- x) = Finite (- v)"
  using round_double_evalI [OF assms] by (simp add: round_double_minus)

lemma round_double_0 [simp]: "round_double 0 = Finite 0"
  by (simp add: round_double_def)

lemma round_double_1: "round_double 1 = Finite 1"
  by (rule round_double_evalI [where e = 0]) (simp_all add: round_half_even_def)

lemma round_double_7: "round_double 7 = Finite 7"
  by (rule round_double_evalI [where e = 2]) (simp_all add: round_half_even_def)

subsection \<open>The error of one rounding\<close>


section \<open>Properties of the scorer\<close>

subsection \<open>Travel time\<close>




subsection \<open>The example at the opposite point of the globe\<close>

text \<open>The operations of \<open>calculateDistance\<close> from the user of the example to the two
  hospitals, one rounding at a time.\<close>

lemma literal_008: "round_double 0.08 = Finite (5764607523034235 / 2 ^ 56)"
  apply (simp add: Math_PI_def sub_num_def)
  apply (rule round_double_evalI [where e = "-4"])
       apply (simp_all add: round_half_even_def)
  done

lemma literal_minus_008: "round_double (- 0.08) = Finite (- (5764607523034235 / 2 ^ 56))"
  apply (simp add: Math_PI_def sub_num_def)
  apply (rule round_double_evalI_neg [where e = "-4"])
       apply (simp_all add: round_half_even_def)
  done

lemma antipodal_lat_difference: "sub_num (Finite (- (5764607523034235 / 2 ^ 56))) (Finite (5764607523034235 / 2 ^ 56)) = Finite (- (5764607523034235 / 2 ^ 55))"
  apply (simp add: Math_PI_def sub_num_def)
  apply (rule round_double_evalI_neg [where e = "-3"])
       apply (simp_all add: round_half_even_def)
  done

lemma antipodal_lat_difference_PI: "mul_num (Finite (- (5764607523034235 / 2 ^ 55))) Math_PI = Finite (- (2263756080649101 / 2 ^ 52))"
  apply (simp add: Math_PI_def sub_num_def)
  apply (rule round_double_evalI_neg [where e = "-1"])
       apply (simp_all add: round_half_even_def)
  done

lemma antipodal_dLat: "div_num (Finite (- (2263756080649101 / 2 ^ 52))) (Finite 180) = Finite (- (6439128407179665 / 2 ^ 61))"
  apply (simp add: Math_PI_def sub_num_def)
  apply (rule round_double_evalI_neg [where e = "-9"])
       apply (simp_all add: round_half_even_def)
  done

lemma antipodal_dLat_half: "div_num (Finite (- (6439128407179665 / 2 ^ 61))) (Finite 2) = Finite (- (6439128407179665 / 2 ^ 62))"
  apply (simp add: Math_PI_def sub_num_def)
  apply (rule round_double_evalI_neg [where e = "-10"])
       apply (simp_all add: round_half_even_def)
  done

lemma antipodal_lon_difference: "sub_num (Finite 180) (Finite 0) = Finite 180"
  apply (simp add: Math_PI_def sub_num_def)
  apply (rule round_double_evalI [where e = "7"])
       apply (simp_all add: round_half_even_def)
  done

lemma antipodal_lon_difference_PI: "mul_num (Finite 180) Math_PI = Finite (4974073419394997 / 2 ^ 43)"
  apply (simp add: Math_PI_def sub_num_def)
  apply (rule round_double_evalI [where e = "9"])
       apply (simp_all add: round_half_even_def)
  done

lemma antipodal_dLon: "div_num (Finite (4974073419394997 / 2 ^ 43)) (Finite 180) = Finite (884279719003555 / 2 ^ 48)"
  apply (simp add: Math_PI_def sub_num_def)
  apply (rule round_double_evalI [where e = "1"])
       apply (simp_all add: round_half_even_def)
  done

lemma antipodal_dLon_half: "div_num (Finite (884279719003555 / 2 ^ 48)) (Finite 2) = Finite (884279719003555 / 2 ^ 49)"
  apply (simp add: Math_PI_def sub_num_def)
  apply (rule round_double_evalI [where e = "0"])
       apply (simp_all add: round_half_even_def)
  done

lemma lat_008_PI: "mul_num (Finite (5764607523034235 / 2 ^ 56)) Math_PI = Finite (2263756080649101 / 2 ^ 53)"
  apply (simp add: Math_PI_def sub_num_def)
  apply (rule round_double_evalI [where e = "-2"])
       apply (simp_all add: round_half_even_def)
  done

lemma lat_008_radians: "div_num (Finite (2263756080649101 / 2 ^ 53)) (Finite 180) = Finite (6439128407179665 / 2 ^ 62)"
  apply (simp add: Math_PI_def sub_num_def)
  apply (rule round_double_evalI [where e = "-10"])
       apply (simp_all add: round_half_even_def)
  done

lemma lat_minus_008_PI: "mul_num (Finite (- (5764607523034235 / 2 ^ 56))) Math_PI = Finite (- (2263756080649101 / 2 ^ 53))"
  apply (simp add: Math_PI_def sub_num_def)
  apply (rule round_double_evalI_neg [where e = "-2"])
       apply (simp_all add: round_half_even_def)
  done

lemma lat_minus_008_radians: "div_num (Finite (- (2263756080649101 / 2 ^ 53))) (Finite 180) = Finite (- (6439128407179665 / 2 ^ 62))"
  apply (simp add: Math_PI_def sub_num_def)
  apply (rule round_double_evalI_neg [where e = "-10"])
       apply (simp_all add: round_half_even_def)
  done

lemma antipodal_sin_squared: "mul_num (Finite (- (1609781578736119 / 2 ^ 60))) (Finite (- (1609781578736119 / 2 ^ 60))) = Finite (4603245307134343 / 2 ^ 71)"
  apply (simp add: Math_PI_def sub_num_def)
  apply (rule round_double_evalI [where e = "-19"])
       apply (simp_all add: round_half_even_def)
  done

lemma antipodal_cos_product: "mul_num (Finite (4503595237371535 / 2 ^ 52)) (Finite (4503595237371535 / 2 ^ 52)) = Finite (9007181694753707 / 2 ^ 53)"
  apply (simp add: Math_PI_def sub_num_def)
  apply (rule round_double_evalI [where e = "-1"])
       apply (simp_all add: round_half_even_def)
  done

lemma antipodal_cos_product_1: "mul_num (Finite (9007181694753707 / 2 ^ 53)) (Finite 1) = Finite (9007181694753707 / 2 ^ 53)"
  apply (simp add: Math_PI_def sub_num_def)
  apply (rule round_double_evalI [where e = "-1"])
       apply (simp_all add: round_half_even_def)
  done

lemma antipodal_a: "add_num (Finite (4603245307134343 / 2 ^ 71)) (Finite (9007181694753707 / 2 ^ 53)) = Finite (4503599627370497 / 2 ^ 52)"
  apply (simp add: Math_PI_def sub_num_def)
  apply (rule round_double_evalI [where e = "0"])
       apply (simp_all add: round_half_even_def)
  done

lemma antipodal_1_minus_a: "sub_num (Finite 1) (Finite (4503599627370497 / 2 ^ 52)) = Finite (- (1 / 2 ^ 52))"
  apply (simp add: Math_PI_def sub_num_def)
  apply (rule round_double_evalI_neg [where e = "-52"])
       apply (simp_all add: round_half_even_def)
  done

lemma example_Math_values:
  "Math_sin example_Math (Finite (- (6439128407179665 / 2 ^ 62))) = Finite (- (1609781578736119 / 2 ^ 60))"
  "Math_sin example_Math (Finite (884279719003555 / 2 ^ 49)) = Finite 1"
  "Math_cos example_Math (Finite (6439128407179665 / 2 ^ 62)) = Finite (4503595237371535 / 2 ^ 52)"
  "Math_cos example_Math (Finite (- (6439128407179665 / 2 ^ 62))) = Finite (4503595237371535 / 2 ^ 52)"
  "Math_sqrt example_Math (Finite 1) = Finite 1"
  "Math_sqrt example_Math (Finite (- (1 / 2 ^ 52))) = NaN"
  by (simp_all add: Math_sin_def Math_cos_def Math_sqrt_def example_Math_def)

lemma Math_atan2_NaN: "Math_atan2 impl y NaN = NaN"
  by (simp add: Math_atan2_def)

lemma mul_num_NaN: "mul_num a NaN = NaN"
  by (cases a) simp_all

lemma calculateDistance_antipodal:
  "calculateDistance example_Math (Finite (5764607523034235 / 2 ^ 56)) (Finite 0) (Finite (- (5764607523034235 / 2 ^ 56))) (Finite 180) = NaN"
  unfolding calculateDistance_def Let_def
  by (simp only: antipodal_lat_difference antipodal_lat_difference_PI antipodal_dLat
      antipodal_dLat_half antipodal_lon_difference antipodal_lon_difference_PI antipodal_dLon
      antipodal_dLon_half lat_008_PI lat_008_radians lat_minus_008_PI lat_minus_008_radians
      example_Math_values antipodal_sin_squared antipodal_cos_product antipodal_cos_product_1
      antipodal_a antipodal_1_minus_a Math_atan2_NaN mul_num_NaN)

lemma zero_steps:
  "sub_num (Finite x) (Finite x) = Finite 0"
  "mul_num (Finite 0) Math_PI = Finite 0"
  "mul_num (Finite x) (Finite 0) = Finite 0"
  "div_num (Finite 0) (Finite 180) = Finite 0"
  "div_num (Finite 0) (Finite 2) = Finite 0"
  "div_num (Finite 0) (Finite 40) = Finite 0"
  "add_num (Finite 0) (Finite 0) = Finite 0"
  "Math_sin impl (Finite 0) = Finite 0"
  "Math_sqrt impl (Finite 0) = Finite 0"
  "Math_atan2 impl (Finite 0) (Finite 1) = Finite 0"
  "sub_num (Finite 1) (Finite 0) = Finite 1"
  "add_num (Finite 0) (Finite 7) = Finite 7"
  by (simp_all add: sub_num_def Math_sin_def Math_sqrt_def Math_atan2_def Math_PI_def
        round_double_1 round_double_7)

lemma calculateDistance_near:
  "calculateDistance example_Math (Finite (5764607523034235 / 2 ^ 56)) (Finite 0)
     (Finite (5764607523034235 / 2 ^ 56)) (Finite 0) = Finite 0"
  unfolding calculateDistance_def Let_def
  by (simp only: zero_steps lat_008_PI lat_008_radians example_Math_values
      antipodal_cos_product)

lemmas example_values =
  literal_008 [simplified] literal_minus_008 [simplified]
  calculateDistance_antipodal [simplified] calculateDistance_near [simplified]

lemma calculateTravelTime_0: "calculateTravelTime (Finite 0) = Finite 0"
  by (simp add: calculateTravelTime_def)

lemma calculateTravelTime_NaN: "calculateTravelTime NaN = NaN"
  by (simp add: calculateTravelTime_def)

lemma scoreHospital_antipodal:
  "scoreHospital example_Math example_user example_antipodal_hospital =
     \<lparr>hospital_id = 1, hospital_name = ''H1'', address = ''a'', phone_number = ''p'',
      latitude = Finite (- (5764607523034235 / 2 ^ 56)), longitude = Finite 180,
      current_wait_time = Finite 5, score = NaN, travel_time = NaN\<rparr>"
  by (simp add: scoreHospital_def Let_def example_user_def example_antipodal_hospital_def
      example_values calculateTravelTime_NaN Hospital.defs HospitalWithScore.defs)

lemma scoreHospital_near:
  "scoreHospital example_Math example_user example_near_hospital =
     \<lparr>hospital_id = 2, hospital_name = ''H2'', address = ''a'', phone_number = ''p'',
      latitude = Finite (5764607523034235 / 2 ^ 56), longitude = Finite 0,
      current_wait_time = Finite 7, score = Finite 7, travel_time = Finite 0\<rparr>"
  by (simp add: scoreHospital_def Let_def example_user_def example_near_hospital_def
      example_values calculateTravelTime_0 round_double_7 Hospital.defs HospitalWithScore.defs)

subsection \<open>The distance\<close>

text \<open>C9, at a pair of points where the code does not do what the claim says. The claim:
  the distance is symmetric, zero from a point to itself, and the haversine distance with
  radius 6371 km. From latitude 0.08, longitude 0 to latitude -0.08, longitude 180 the
  sum \<open>a\<close> of the source rounds to \<open>1 + 2^-52\<close>, \<open>1 - a\<close> is negative, its square root
  is NaN and \<open>calculateDistance\<close> returns NaN: not a distance (the haversine distance of
  the two points is half the circumference), and not equal to the distance in the other
  direction, since NaN equals nothing.\<close>

theorem calculateDistance_antipodal_NaN:
  "calculateDistance example_Math (round_double 0.08) (Finite 0) (round_double (- 0.08)) (Finite 180)
     = NaN
   \<and> \<not> eq_num
       (calculateDistance example_Math (round_double 0.08) (Finite 0)
          (round_double (- 0.08)) (Finite 180))
       (calculateDistance example_Math (round_double (- 0.08)) (Finite 180)
          (round_double 0.08) (Finite 0))"
  by (simp add: example_values)

subsection \<open>The recommendation\<close>

text \<open>C1, at an input where the code does not do what the claim says. The claim: for a
  non-empty list the result has a score less than or equal to every score of the list.
  With the hospital at the opposite point first and the hospital at the user's position
  second, the first has the score NaN, the comparison function returns NaN, the sort
  leaves the array as it is, and \<open>findRecommendedHospital\<close> returns the first hospital;
  its score is not less than or equal to the score 7 of the second.\<close>

theorem findRecommendedHospital_antipodal_not_minimum:
  "findRecommendedHospital example_Math [example_antipodal_hospital, example_near_hospital]
       (Some example_user)
     = Some (scoreHospital example_Math example_user example_antipodal_hospital)
   \<and> score (scoreHospital example_Math example_user example_antipodal_hospital) = NaN
   \<and> score (scoreHospital example_Math example_user example_near_hospital) = Finite 7
   \<and> \<not> le_num (score (scoreHospital example_Math example_user example_antipodal_hospital))
            (score (scoreHospital example_Math example_user example_near_hospital))"
  by (simp add: findRecommendedHospital_def hospitalsWithScores_def compareScore_def sub_num_def
      scoreHospital_antipodal scoreHospital_near)

subsection \<open>The ranking\<close>

text \<open>C2, at an input where the code does not do what the claim says. The claim: the
  ranked sequence is sorted ascending by score, each score being the travel time plus the
  waiting time. For the same two hospitals the sorted local array of
  \<open>findRecommendedHospital\<close> has the scores NaN, 7: it is not ascending, the travel time
  of its first element is NaN, and its score does not equal travel time plus waiting time
  (NaN equals nothing).\<close>

theorem hospitalsWithScores_antipodal_unsorted:
  "hospitalsWithScores example_Math [example_antipodal_hospital, example_near_hospital]
       example_user
     = [scoreHospital example_Math example_user example_antipodal_hospital,
        scoreHospital example_Math example_user example_near_hospital]
   \<and> map score (hospitalsWithScores example_Math
         [example_antipodal_hospital, example_near_hospital] example_user)
     = [NaN, Finite 7]
   \<and> \<not> le_num NaN (Finite 7)
   \<and> travel_time (scoreHospital example_Math example_user example_antipodal_hospital) = NaN
   \<and> \<not> eq_num (score (scoreHospital example_Math example_user example_antipodal_hospital))
        (add_num (travel_time (scoreHospital example_Math example_user example_antipodal_hospital))
           (current_wait_time example_antipodal_hospital))"
  by (simp add: hospitalsWithScores_def compareScore_def sub_num_def
      scoreHospital_antipodal scoreHospital_near)

subsection \<open>The empty hospital list\<close>

text \<open>C3, as the code has it: with an empty hospital list \<open>findRecommendedHospital\<close>
  returns \<open>null\<close>, whatever the user location; it raises no error. The source has no
  ranking operation of its own and no error \<open>EmptyInput\<close>.\<close>

theorem findRecommendedHospital_empty_returns_null:
  "findRecommendedHospital impl [] userLoc = None"
  by (simp add: findRecommendedHospital_def split: option.splits)

text \<open>C3 as the specification states it (the operation fails with an error rather than
  returning a sentinel) does not hold: at the empty list the result is the value
  \<open>null\<close>.\<close>

theorem findRecommendedHospital_empty_counterexample:
  "findRecommendedHospital example_Math []
     (Some \<lparr>UserLocation.latitude = Finite 43.75, longitude = Finite (- 79.5)\<rparr>) = None"
  by (simp add: findRecommendedHospital_def)

section \<open>Properties of the request client\<close>

subsection \<open>The paths of one call\<close>

lemma request_interceptor_keeps [simp]:
  "retry (request_interceptor cfg w) = retry cfg"
  "http_method (request_interceptor cfg w) = http_method cfg"
  "url (request_interceptor cfg w) = url cfg"
  "config.data (request_interceptor cfg w) = config.data cfg"
  by (simp_all add: request_interceptor_def Let_def)

lemma request_interceptor_after_refresh:
  "store w ''accessToken'' = Some a \<Longrightarrow>
   request_interceptor (cfg\<lparr>Authorization := Some (''Bearer '' @ a)\<rparr>) w
     = cfg\<lparr>Authorization := Some (''Bearer '' @ a)\<rparr>"
  by (simp add: request_interceptor_def Let_def truthy_def)

lemma apiClient_retried:
  "retry cfg \<Longrightarrow> apiClient net cfg w = dispatch net ApiClient (request_interceptor cfg w) w"
  by (subst apiClient.simps)
     (simp add: Let_def dispatch_def split: sum.splits error.splits option.splits)

lemma apiClient_refreshed:
  assumes "\<not> retry cfg"
    and "net (trace w) ApiClient (request_interceptor cfg w) = Answer r1"
    and "status r1 = 401"
    and "store w ''refreshToken'' = Some rt" and "rt \<noteq> []"
    and "net (trace w @ [Request ApiClient (request_interceptor cfg w)]) Axios (refresh_request rt)
          = Answer r2"
    and "200 \<le> status r2" and "status r2 < 300"
    and "get_property (response.data r2) ''access'' = Some a"
    and "get_property (response.data r2) ''refresh'' = Some b"
  shows "apiClient net cfg w =
     dispatch net ApiClient
       ((request_interceptor cfg w)\<lparr>retry := True, Authorization := Some (''Bearer '' @ a)\<rparr>)
       (w\<lparr>store := (store w)(''accessToken'' \<mapsto> a, ''refreshToken'' \<mapsto> b),
          trace := trace w @
            [Request ApiClient (request_interceptor cfg w),
             Request Axios (refresh_request rt),
             SetItem ''accessToken'' a,
             SetItem ''refreshToken'' b]\<rparr>)"
proof -
  let ?sent = "request_interceptor cfg w"
  let ?w4 = "w\<lparr>store := (store w)(''accessToken'' \<mapsto> a, ''refreshToken'' \<mapsto> b),
          trace := trace w @ [Request ApiClient ?sent, Request Axios (refresh_request rt),
             SetItem ''accessToken'' a, SetItem ''refreshToken'' b]\<rparr>"
  let ?again = "?sent\<lparr>retry := True, Authorization := Some (''Bearer '' @ a)\<rparr>"
  have step: "apiClient net cfg w = apiClient net ?again ?w4"
    using assms
    by (subst apiClient.simps)
       (simp add: Let_def dispatch_def settle_def truthy_def setItemAsync_def)
  have "apiClient net ?again ?w4 = dispatch net ApiClient (request_interceptor ?again ?w4) ?w4"
    by (rule apiClient_retried) simp
  moreover have "request_interceptor ?again ?w4 = ?again"
    using request_interceptor_after_refresh [of ?w4 a "?sent\<lparr>retry := True\<rparr>"] by simp
  ultimately show ?thesis using step by simp
qed

lemma dispatch_trace:
  "snd (dispatch net c cfg w) = w\<lparr>trace := trace w @ [Request c cfg]\<rparr>"
  by (simp add: dispatch_def)

lemma apiClient_events:
  "\<exists>evs. trace (snd (apiClient net cfg w)) = trace w @ evs
     \<and> length (filter (sent_by Axios) evs) \<le> 1
     \<and> length (filter (sent_by ApiClient) evs) \<le> 2
     \<and> (\<forall>e\<in>set evs. sent_by Axios e \<longrightarrow> (\<exists>t. e = Request Axios (refresh_request t)))"
proof (cases "retry cfg")
  case True
  then show ?thesis
    by (simp add: apiClient_retried dispatch_trace)
next
  case False
  then show ?thesis
    by (auto simp: apiClient.simps [of net cfg w] Let_def apiClient_retried dispatch_def
          setItemAsync_def
        split: sum.splits error.splits option.splits prod.splits)
qed

text \<open>The hypotheses of the theorems below describe one call \<open>apiClient(config)\<close> by a
  caller: the configuration has no \<open>_retry\<close> flag, and the remote side answers the
  requests as the claim says. A refresh token is stored when the item \<open>refreshToken\<close> is a
  non-empty string (the source tests \<open>!refreshToken\<close>); the refresh call succeeds when its
  response has a status from 200 to 299 and the properties \<open>access\<close> and \<open>refresh\<close>.\<close>

subsection \<open>One 401, then a refresh that succeeds\<close>

text \<open>C4: when the first send of a request receives 401, a refresh token is stored and the
  refresh call succeeds, the call adds exactly these events to the trace: the original
  request by \<open>apiClient\<close>, the refresh request by the bare \<open>axios\<close>, the two writes of the
  new tokens, and the request again by \<open>apiClient\<close> with the new access token. So
  \<open>apiClient\<close> sends exactly two requests with the method and url of the original, the
  bare \<open>axios\<close> sends exactly one request to the refresh url, and the caller gets what the
  second send of the request gives (its response, or its error).\<close>

theorem apiClient_refresh_and_retry:
  assumes "\<not> retry cfg"
    and "net (trace w) ApiClient (request_interceptor cfg w) = Answer r1"
    and "status r1 = 401"
    and "store w ''refreshToken'' = Some rt" and "rt \<noteq> []"
    and "net (trace w @ [Request ApiClient (request_interceptor cfg w)]) Axios (refresh_request rt)
          = Answer r2"
    and "200 \<le> status r2" and "status r2 < 300"
    and "get_property (response.data r2) ''access'' = Some a"
    and "get_property (response.data r2) ''refresh'' = Some b"
  shows "(let sent = request_interceptor cfg w;
              again = sent\<lparr>retry := True, Authorization := Some (''Bearer '' @ a)\<rparr>;
              before = [Request ApiClient sent, Request Axios (refresh_request rt),
                        SetItem ''accessToken'' a, SetItem ''refreshToken'' b];
              evs = before @ [Request ApiClient again]
          in trace (snd (apiClient net cfg w)) = trace w @ evs
             \<and> length (filter (is_call ApiClient (http_method cfg) (url cfg)) evs) = 2
             \<and> length (filter (is_call Axios ''post'' (API_BASE_URL @ ''token/refresh/'')) evs) = 1
             \<and> fst (apiClient net cfg w) = settle again (net (trace w @ before) ApiClient again))"
  by (simp add: apiClient_refreshed [OF assms] Let_def dispatch_def refresh_request_def)

theorem apiClient_refresh_and_retry_witness:
  "\<not> retry example_request
   \<and> example_server (trace example_world) ApiClient
         (request_interceptor example_request example_world)
       = Answer \<lparr>status = 401, data = []\<rparr>
   \<and> store example_world ''refreshToken'' = Some ''R0''
   \<and> example_server
         (trace example_world @
            [Request ApiClient (request_interceptor example_request example_world)])
         Axios (refresh_request ''R0'')
       = Answer \<lparr>status = 200, data = [(''access'', ''A1''), (''refresh'', ''R1'')]\<rparr>
   \<and> fst (apiClient example_server example_request example_world)
     = Inr \<lparr>status = 200, data = [(''username'', ''sam'')]\<rparr>
   \<and> trace (snd (apiClient example_server example_request example_world))
     = [Request ApiClient (example_request\<lparr>Authorization := Some ''Bearer A0''\<rparr>),
        Request Axios (refresh_request ''R0''),
        SetItem ''accessToken'' ''A1'', SetItem ''refreshToken'' ''R1'',
        Request ApiClient (example_request\<lparr>Authorization := Some ''Bearer A1'', retry := True\<rparr>)]"
  using apiClient_refresh_and_retry [of example_request example_server example_world
      "\<lparr>status = 401, data = []\<rparr>" "''R0''"
      "\<lparr>status = 200, data = [(''access'', ''A1''), (''refresh'', ''R1'')]\<rparr>" "''A1''" "''R1''"]
  by (simp add: example_request_def example_server_def example_world_def request_interceptor_def
      truthy_def Let_def get_property_def settle_def refresh_request_def)

subsection \<open>At most one refresh\<close>

text \<open>C5: whatever the request, the store and the remote side, one call of \<open>apiClient\<close>
  sends at most one refresh request and at most two requests of its own. When the request
  sent again after a refresh that succeeded receives 401 again, the promise is rejected
  with the error of that second send, whose response has the status 401 (the failure the
  specification calls Unauthenticated), after exactly one refresh request.\<close>

theorem apiClient_single_refresh:
  "(\<exists>evs. trace (snd (apiClient net cfg w)) = trace w @ evs
       \<and> length (filter (sent_by Axios) evs) \<le> 1
       \<and> length (filter (sent_by ApiClient) evs) \<le> 2)
   \<and> (let sent = request_interceptor cfg w;
            again = sent\<lparr>retry := True, Authorization := Some (''Bearer '' @ a)\<rparr>;
            before = [Request ApiClient sent, Request Axios (refresh_request rt),
                      SetItem ''accessToken'' a, SetItem ''refreshToken'' b]
        in \<not> retry cfg
           \<and> net (trace w) ApiClient sent = Answer r1 \<and> status r1 = 401
           \<and> store w ''refreshToken'' = Some rt \<and> rt \<noteq> []
           \<and> net (trace w @ [Request ApiClient sent]) Axios (refresh_request rt) = Answer r2
           \<and> 200 \<le> status r2 \<and> status r2 < 300
           \<and> get_property (response.data r2) ''access'' = Some a
           \<and> get_property (response.data r2) ''refresh'' = Some b
           \<and> net (trace w @ before) ApiClient again = Answer r3 \<and> status r3 = 401
           \<longrightarrow> fst (apiClient net cfg w) = Inl (AxiosError again (Some r3))
               \<and> trace (snd (apiClient net cfg w)) = trace w @ before @ [Request ApiClient again]
               \<and> length (filter (sent_by Axios) (before @ [Request ApiClient again])) = 1)"
proof -
  have general: "\<exists>evs. trace (snd (apiClient net cfg w)) = trace w @ evs
       \<and> length (filter (sent_by Axios) evs) \<le> 1
       \<and> length (filter (sent_by ApiClient) evs) \<le> 2"
    using apiClient_events [of net cfg w] by blast
  have twice: "fst (apiClient net cfg w)
        = Inl (AxiosError ((request_interceptor cfg w)
                \<lparr>retry := True, Authorization := Some (''Bearer '' @ a)\<rparr>) (Some r3))
      \<and> trace (snd (apiClient net cfg w)) = trace w @
          [Request ApiClient (request_interceptor cfg w), Request Axios (refresh_request rt),
           SetItem ''accessToken'' a, SetItem ''refreshToken'' b,
           Request ApiClient ((request_interceptor cfg w)
                \<lparr>retry := True, Authorization := Some (''Bearer '' @ a)\<rparr>)]"
    if "\<not> retry cfg"
      and "net (trace w) ApiClient (request_interceptor cfg w) = Answer r1"
      and "status r1 = 401"
      and "store w ''refreshToken'' = Some rt" and "rt \<noteq> []"
      and "net (trace w @ [Request ApiClient (request_interceptor cfg w)]) Axios (refresh_request rt)
            = Answer r2"
      and "200 \<le> status r2" and "status r2 < 300"
      and "get_property (response.data r2) ''access'' = Some a"
      and "get_property (response.data r2) ''refresh'' = Some b"
      and "net (trace w @ [Request ApiClient (request_interceptor cfg w),
                Request Axios (refresh_request rt),
                SetItem ''accessToken'' a, SetItem ''refreshToken'' b]) ApiClient
             ((request_interceptor cfg w)\<lparr>retry := True, Authorization := Some (''Bearer '' @ a)\<rparr>)
            = Answer r3"
      and "status r3 = 401"
    using that(11,12)
    by (simp add: apiClient_refreshed [OF that(1-10)] dispatch_def settle_def)
  show ?thesis
    using general twice by (simp add: Let_def)
qed

theorem apiClient_single_refresh_witness:
  "\<not> retry example_request
   \<and> example_rejecting_server (trace example_world) ApiClient
         (request_interceptor example_request example_world)
       = Answer \<lparr>status = 401, data = []\<rparr>
   \<and> store example_world ''refreshToken'' = Some ''R0''
   \<and> example_rejecting_server
         (trace example_world @
            [Request ApiClient (request_interceptor example_request example_world)])
         Axios (refresh_request ''R0'')
       = Answer \<lparr>status = 200, data = [(''access'', ''A1''), (''refresh'', ''R1'')]\<rparr>
   \<and> example_rejecting_server
         (trace example_world @
            [Request ApiClient (request_interceptor example_request example_world),
             Request Axios (refresh_request ''R0''),
             SetItem ''accessToken'' ''A1'', SetItem ''refreshToken'' ''R1''])
         ApiClient (example_request\<lparr>Authorization := Some ''Bearer A1'', retry := True\<rparr>)
       = Answer \<lparr>status = 401, data = []\<rparr>
   \<and> fst (apiClient example_rejecting_server example_request example_world)
     = Inl (AxiosError (example_request\<lparr>Authorization := Some ''Bearer A1'', retry := True\<rparr>)
              (Some \<lparr>status = 401, data = []\<rparr>))
   \<and> trace (snd (apiClient example_rejecting_server example_request example_world))
     = [Request ApiClient (example_request\<lparr>Authorization := Some ''Bearer A0''\<rparr>),
        Request Axios (refresh_request ''R0''),
        SetItem ''accessToken'' ''A1'', SetItem ''refreshToken'' ''R1'',
        Request ApiClient (example_request\<lparr>Authorization := Some ''Bearer A1'', retry := True\<rparr>)]"
  using apiClient_single_refresh [of example_rejecting_server example_request example_world
      "''A1''" "''R0''" "''R1''" "\<lparr>status = 401, data = []\<rparr>"
      "\<lparr>status = 200, data = [(''access'', ''A1''), (''refresh'', ''R1'')]\<rparr>"
      "\<lparr>status = 401, data = []\<rparr>"]
  by (simp add: example_request_def example_rejecting_server_def example_world_def
      request_interceptor_def truthy_def Let_def get_property_def refresh_request_def)

subsection \<open>A 401 without a refresh token\<close>

text \<open>C6: when a request receives 401 and the store holds no refresh token (no item, or
  the empty string), the promise is rejected with the error of that response, whose status
  is 401 (the failure the specification calls Unauthenticated); the only event of the call
  is the original request: no refresh request, and the request is not sent again.\<close>

theorem apiClient_401_without_refresh_token:
  assumes "\<not> retry cfg"
    and "net (trace w) ApiClient (request_interceptor cfg w) = Answer r"
    and "status r = 401"
    and "\<not> truthy (store w ''refreshToken'')"
  shows "(let sent = request_interceptor cfg w; evs = [Request ApiClient sent]
          in apiClient net cfg w =
               (Inl (AxiosError (sent\<lparr>retry := True\<rparr>) (Some r)), w\<lparr>trace := trace w @ evs\<rparr>)
             \<and> length (filter (sent_by Axios) evs) = 0
             \<and> length (filter (sent_by ApiClient) evs) = 1)"
  using assms
  by (simp add: apiClient.simps [of net cfg w] Let_def dispatch_def settle_def)

theorem apiClient_401_without_refresh_token_witness:
  "\<not> retry example_request
   \<and> example_closed_server [] ApiClient
         (request_interceptor example_request \<lparr>store = Map.empty, trace = []\<rparr>)
       = Answer \<lparr>status = 401, data = []\<rparr>
   \<and> \<not> truthy (Map.empty ''refreshToken'')
   \<and> apiClient example_closed_server example_request \<lparr>store = Map.empty, trace = []\<rparr>
     = (Inl (AxiosError (example_request\<lparr>retry := True\<rparr>) (Some \<lparr>status = 401, data = []\<rparr>)),
        \<lparr>store = Map.empty, trace = [Request ApiClient example_request]\<rparr>)"
  using apiClient_401_without_refresh_token [of example_request example_closed_server
      "\<lparr>store = Map.empty, trace = []\<rparr>" "\<lparr>status = 401, data = []\<rparr>"]
  by (simp add: example_request_def example_closed_server_def
      request_interceptor_def truthy_def Let_def)

subsection \<open>The two writes of a refresh\<close>

text \<open>C7, as the code has it: on a refresh that succeeds, the access token and then the
  refresh token are written to the store, both before the request is sent again, and the
  store ends with the new pair. The writes are two steps: the states of the store along the
  events of the call are the old pair until the first write, then the new access token
  with the old refresh token, then the new pair.\<close>

theorem refresh_writes_access_then_refresh_token:
  assumes "\<not> retry cfg"
    and "net (trace w) ApiClient (request_interceptor cfg w) = Answer r1"
    and "status r1 = 401"
    and "store w ''refreshToken'' = Some rt" and "rt \<noteq> []"
    and "net (trace w @ [Request ApiClient (request_interceptor cfg w)]) Axios (refresh_request rt)
          = Answer r2"
    and "200 \<le> status r2" and "status r2 < 300"
    and "get_property (response.data r2) ''access'' = Some a"
    and "get_property (response.data r2) ''refresh'' = Some b"
  shows "(let sent = request_interceptor cfg w;
              again = sent\<lparr>retry := True, Authorization := Some (''Bearer '' @ a)\<rparr>;
              evs = [Request ApiClient sent, Request Axios (refresh_request rt),
                     SetItem ''accessToken'' a, SetItem ''refreshToken'' b,
                     Request ApiClient again];
              old = store w ''accessToken''
          in trace (snd (apiClient net cfg w)) = trace w @ evs
             \<and> store (snd (apiClient net cfg w))
                 = (store w)(''accessToken'' \<mapsto> a, ''refreshToken'' \<mapsto> b)
             \<and> map token_pair (stores_seen (store w) evs)
                 = [(old, Some rt), (old, Some rt), (old, Some rt),
                    (Some a, Some rt), (Some a, Some b), (Some a, Some b)])"
  using assms(4)
  by (simp add: apiClient_refreshed [OF assms] Let_def dispatch_def token_pair_def)

theorem refresh_writes_access_then_refresh_token_witness:
  "\<not> retry example_request
   \<and> example_server (trace example_world) ApiClient
         (request_interceptor example_request example_world)
       = Answer \<lparr>status = 401, data = []\<rparr>
   \<and> store example_world ''refreshToken'' = Some ''R0''
   \<and> example_server
         (trace example_world @
            [Request ApiClient (request_interceptor example_request example_world)])
         Axios (refresh_request ''R0'')
       = Answer \<lparr>status = 200, data = [(''access'', ''A1''), (''refresh'', ''R1'')]\<rparr>
   \<and> trace (snd (apiClient example_server example_request example_world))
     = [Request ApiClient (example_request\<lparr>Authorization := Some ''Bearer A0''\<rparr>),
        Request Axios (refresh_request ''R0''),
        SetItem ''accessToken'' ''A1'', SetItem ''refreshToken'' ''R1'',
        Request ApiClient (example_request\<lparr>Authorization := Some ''Bearer A1'', retry := True\<rparr>)]
   \<and> token_pair (store (snd (apiClient example_server example_request example_world)))
     = (Some ''A1'', Some ''R1'')"
  using refresh_writes_access_then_refresh_token [of example_request example_server example_world
      "\<lparr>status = 401, data = []\<rparr>" "''R0''"
      "\<lparr>status = 200, data = [(''access'', ''A1''), (''refresh'', ''R1'')]\<rparr>" "''A1''" "''R1''"]
  by (simp add: example_request_def example_server_def example_world_def request_interceptor_def
      truthy_def Let_def get_property_def refresh_request_def token_pair_def)

lemma example_refreshed:
  "apiClient example_server example_request example_world =
     dispatch example_server ApiClient
       (example_request\<lparr>Authorization := Some ''Bearer A1'', retry := True\<rparr>)
       \<lparr>store = [''accessToken'' \<mapsto> ''A1'', ''refreshToken'' \<mapsto> ''R1''],
        trace = [Request ApiClient (example_request\<lparr>Authorization := Some ''Bearer A0''\<rparr>),
                 Request Axios (refresh_request ''R0''),
                 SetItem ''accessToken'' ''A1'', SetItem ''refreshToken'' ''R1'']\<rparr>"
  using apiClient_refreshed [of example_request example_server example_world
      "\<lparr>status = 401, data = []\<rparr>" "''R0''"
      "\<lparr>status = 200, data = [(''access'', ''A1''), (''refresh'', ''R1'')]\<rparr>" "''A1''" "''R1''"]
  by (simp add: example_request_def example_server_def example_world_def request_interceptor_def
      truthy_def Let_def get_property_def refresh_request_def)

text \<open>C7 as the specification states it (the pair is overwritten atomically, no reader
  sees a half-updated pair) does not hold: with the pair \<open>A0\<close>, \<open>R0\<close> stored and the pair
  \<open>A1\<close>, \<open>R1\<close> from the refresh, the store after the third event of the call (the write
  of the access token) holds \<open>A1\<close> with \<open>R0\<close>.\<close>

theorem refresh_writes_not_atomic_counterexample:
  "token_pair (store example_world) = (Some ''A0'', Some ''R0'')
   \<and> token_pair (store (snd (apiClient example_server example_request example_world)))
       = (Some ''A1'', Some ''R1'')
   \<and> token_pair (stores_seen (store example_world)
         (trace (snd (apiClient example_server example_request example_world))) ! 3)
       = (Some ''A1'', Some ''R0'')"
  by (simp add: example_refreshed dispatch_def token_pair_def)
     (simp add: example_world_def)

subsection \<open>The refresh request\<close>

text \<open>C10: the refresh request is sent by the bare \<open>axios\<close>, past both interceptors. It has
  no header \<open>Authorization\<close>, whatever the store holds; every request the bare \<open>axios\<close>
  sends during a call is a refresh request, and there is at most one; and when the refresh
  request is rejected (a 401 or any other error), the promise is rejected with that error
  after the two requests: no second refresh request, and the original is not sent again.\<close>

theorem refresh_call_bypasses_interceptors:
  "Authorization (refresh_request t) = None
   \<and> (\<exists>evs. trace (snd (apiClient net cfg w)) = trace w @ evs
         \<and> (\<forall>e\<in>set evs. sent_by Axios e \<longrightarrow> (\<exists>t. e = Request Axios (refresh_request t)))
         \<and> length (filter (sent_by Axios) evs) \<le> 1)
   \<and> (let sent = request_interceptor cfg w
       in \<not> retry cfg
          \<and> net (trace w) ApiClient sent = Answer r1 \<and> status r1 = 401
          \<and> store w ''refreshToken'' = Some rt \<and> rt \<noteq> []
          \<and> settle (refresh_request rt)
                (net (trace w @ [Request ApiClient sent]) Axios (refresh_request rt))
              = Inl refreshError
          \<longrightarrow> apiClient net cfg w =
                (Inl refreshError,
                 w\<lparr>trace := trace w @ [Request ApiClient sent, Request Axios (refresh_request rt)]\<rparr>))"
proof -
  have general: "\<exists>evs. trace (snd (apiClient net cfg w)) = trace w @ evs
         \<and> (\<forall>e\<in>set evs. sent_by Axios e \<longrightarrow> (\<exists>t. e = Request Axios (refresh_request t)))
         \<and> length (filter (sent_by Axios) evs) \<le> 1"
    using apiClient_events [of net cfg w] by blast
  have failed: "apiClient net cfg w =
      (Inl refreshError,
       w\<lparr>trace := trace w @ [Request ApiClient (request_interceptor cfg w),
                              Request Axios (refresh_request rt)]\<rparr>)"
    if "\<not> retry cfg"
      and "net (trace w) ApiClient (request_interceptor cfg w) = Answer r1"
      and "status r1 = 401"
      and "store w ''refreshToken'' = Some rt" and "rt \<noteq> []"
      and "settle (refresh_request rt)
             (net (trace w @ [Request ApiClient (request_interceptor cfg w)]) Axios
                (refresh_request rt)) = Inl refreshError"
    using that
    by (simp add: apiClient.simps [of net cfg w] Let_def dispatch_def settle_def truthy_def)
  have "Authorization (refresh_request t) = None"
    by (simp add: refresh_request_def)
  with general failed show ?thesis by (simp add: Let_def)
qed

theorem refresh_call_bypasses_interceptors_witness:
  "\<not> retry example_request
   \<and> example_closed_server (trace example_world) ApiClient
         (request_interceptor example_request example_world)
       = Answer \<lparr>status = 401, data = []\<rparr>
   \<and> store example_world ''refreshToken'' = Some ''R0''
   \<and> settle (refresh_request ''R0'')
         (example_closed_server
            (trace example_world @
               [Request ApiClient (request_interceptor example_request example_world)])
            Axios (refresh_request ''R0''))
       = Inl (AxiosError (refresh_request ''R0'') (Some \<lparr>status = 401, data = []\<rparr>))
   \<and> apiClient example_closed_server example_request example_world
     = (Inl (AxiosError (refresh_request ''R0'') (Some \<lparr>status = 401, data = []\<rparr>)),
        example_world\<lparr>trace :=
          [Request ApiClient (example_request\<lparr>Authorization := Some ''Bearer A0''\<rparr>),
           Request Axios (refresh_request ''R0'')]\<rparr>)
   \<and> Authorization (refresh_request ''R0'') = None"
  using refresh_call_bypasses_interceptors [of "''R0''" example_closed_server example_request
      example_world "\<lparr>status = 401, data = []\<rparr>" "''R0''"
      "AxiosError (refresh_request ''R0'') (Some \<lparr>status = 401, data = []\<rparr>)"]
  by (simp add: example_request_def example_closed_server_def example_world_def
      request_interceptor_def truthy_def Let_def settle_def)

end
